theory Spec2Isabelle
  imports Complex_Main
begin

section \<open>Numeric model\<close>

text \<open>
  The analytics module \<^verbatim>\<open>api/ai_services.py\<close> computes with Python floats and, through
  \<^verbatim>\<open>np.mean\<close> and \<^verbatim>\<open>np.std\<close>, with numpy floats. Finite floats are modelled as
  real numbers with exact arithmetic. What a call can do besides returning finite numbers is
  kept as an explicit outcome:
  \<^item> \<open>Raises e\<close>: the call raises the Python exception \<open>e\<close> (a division of Python
    numbers by zero, an index out of range, \<^verbatim>\<open>min\<close> or \<^verbatim>\<open>max\<close> of an empty list);
  \<^item> \<open>NonFinite\<close>: the call returns normally, but numpy has produced \<^verbatim>\<open>nan\<close> or
    \<^verbatim>\<open>inf\<close> on the way (the mean of an empty list, a numpy division by zero: both
    only warn), so that the returned numbers lie outside the real numbers;
  \<^item> \<open>Returns v\<close>: the call returns the finite value \<open>v\<close>.
  The arguments are taken to be what the signatures annotate: lists of Python floats,
  Python floats and Python ints.
\<close>

datatype py_exception = ZeroDivisionError | IndexError | ValueError

datatype 'a outcome = Returns 'a | Raises py_exception | NonFinite

text \<open>
  \<^verbatim>\<open>round(x, ndigits)\<close> rounds to the nearest multiple of \<open>10 ^ -ndigits\<close> and a tie to
  the even neighbour.
\<close>

definition round_half_even :: "real \<Rightarrow> int" where
  "round_half_even x =
     (let f = \<lfloor>x\<rfloor>; d = x - of_int f
      in if d < 1 / 2 then f
         else if 1 / 2 < d then f + 1
         else if even f then f else f + 1)"

definition py_round :: "real \<Rightarrow> nat \<Rightarrow> real" where
  "py_round x ndigits = of_int (round_half_even (x * 10 ^ ndigits)) / 10 ^ ndigits"

text \<open>\<^verbatim>\<open>int(x)\<close> on a float truncates towards zero.\<close>

definition py_int :: "real \<Rightarrow> int" where
  "py_int x = (if 0 \<le> x then \<lfloor>x\<rfloor> else \<lceil>x\<rceil>)"

subsection \<open>Lists: indexing and slicing\<close>

text \<open>
  A slice bound \<open>i\<close> on a list of length \<open>n\<close>: a negative bound counts from the end, and
  every bound is clamped to \<open>0..n\<close>. Slices never raise.
\<close>

definition slice_bound :: "int \<Rightarrow> nat \<Rightarrow> nat" where
  "slice_bound i n = (if i < 0 then nat (max 0 (int n + i)) else min (nat i) n)"

definition py_slice :: "'a list \<Rightarrow> int \<Rightarrow> int \<Rightarrow> 'a list" where
  \<comment> \<open>\<^verbatim>\<open>xs[i:j]\<close>\<close>
  "py_slice xs i j =
     (let a = slice_bound i (length xs); b = slice_bound j (length xs)
      in take (b - a) (drop a xs))"

definition py_slice_from :: "'a list \<Rightarrow> int \<Rightarrow> 'a list" where
  \<comment> \<open>\<^verbatim>\<open>xs[i:]\<close>\<close>
  "py_slice_from xs i = drop (slice_bound i (length xs)) xs"

definition py_slice_to :: "'a list \<Rightarrow> int \<Rightarrow> 'a list" where
  \<comment> \<open>\<^verbatim>\<open>xs[:j]\<close>\<close>
  "py_slice_to xs j = take (slice_bound j (length xs)) xs"

text \<open>\<^verbatim>\<open>xs[i]\<close>: a negative index counts from the end; out of range raises.\<close>

definition py_get :: "'a list \<Rightarrow> int \<Rightarrow> 'a option" where
  "py_get xs i =
     (if 0 \<le> i \<and> i < int (length xs) then Some (xs ! nat i)
      else if i < 0 \<and> - int (length xs) \<le> i then Some (xs ! nat (int (length xs) + i))
      else None)"

subsection \<open>Outcomes in sequence\<close>

text \<open>
  A computation that continues with the value of a call that returned, and otherwise ends
  as that call did.
\<close>

definition outcome_bind :: "'a outcome \<Rightarrow> ('a \<Rightarrow> 'b outcome) \<Rightarrow> 'b outcome" where
  "outcome_bind r f = (case r of Returns v \<Rightarrow> f v | Raises e \<Rightarrow> Raises e | NonFinite \<Rightarrow> NonFinite)"

definition index :: "'a list \<Rightarrow> int \<Rightarrow> 'a outcome" where
  \<comment> \<open>\<^verbatim>\<open>xs[i]\<close> as an outcome\<close>
  "index xs i = (case py_get xs i of None \<Rightarrow> Raises IndexError | Some v \<Rightarrow> Returns v)"

text \<open>A division of Python floats raises on a zero divisor.\<close>

definition py_div :: "real \<Rightarrow> real \<Rightarrow> real outcome" where
  "py_div x y = (if y = 0 then Raises ZeroDivisionError else Returns (x / y))"

subsection \<open>numpy\<close>

text \<open>
  \<^verbatim>\<open>np.mean\<close> and \<^verbatim>\<open>np.std\<close> (the population standard deviation) of a non-empty
  list. On the empty list numpy warns and returns \<^verbatim>\<open>nan\<close>, which is \<open>None\<close> here.
\<close>

definition mean :: "real list \<Rightarrow> real" where
  "mean xs = sum_list xs / real (length xs)"

definition std :: "real list \<Rightarrow> real" where
  "std xs = sqrt (mean (map (\<lambda>x. (x - mean xs)\<^sup>2) xs))"

definition np_mean :: "real list \<Rightarrow> real option" where
  "np_mean xs = (if xs = [] then None else Some (mean xs))"

definition np_std :: "real list \<Rightarrow> real option" where
  "np_std xs = (if xs = [] then None else Some (std xs))"

section \<open>TechnicalIndicators\<close>

subsection \<open>calculate\_rsi\<close>


subsection \<open>calculate\_sma\<close>

text \<open>
  Each element is a numpy mean, \<open>None\<close> where numpy returns \<^verbatim>\<open>nan\<close> for an empty
  slice. The loop appends one value per index, so it is a \<open>map\<close> over
  \<^verbatim>\<open>range(len(prices))\<close>.
\<close>

definition calculate_sma :: "real list \<Rightarrow> int \<Rightarrow> real option list" where
  "calculate_sma prices period =
     (if int (length prices) < period then replicate (length prices) (np_mean prices)
      else
        map (\<lambda>i. if int i < period - 1 then np_mean (py_slice_to prices (int i + 1))
                 else np_mean (py_slice prices (int i - period + 1) (int i + 1)))
          [0..<length prices])"

text \<open>
  The moving average in the words of the specification: at index \<open>i\<close>, when fewer than
  \<open>period\<close> points precede \<open>i\<close>, the mean of all points from the start up to \<open>i\<close>;
  otherwise the mean of exactly the trailing \<open>period\<close> points ending at \<open>i\<close>.
\<close>

definition sma_spec :: "real list \<Rightarrow> int \<Rightarrow> nat \<Rightarrow> real option" where
  "sma_spec prices period i =
     (if int i < period then np_mean (take (i + 1) prices)
      else np_mean (take (nat period) (drop (i + 1 - nat period) prices)))"

subsection \<open>calculate\_ema\<close>



subsection \<open>calculate\_macd\<close>



subsection \<open>calculate\_bollinger\_bands\<close>

text \<open>
  With too few prices the band is the last price and plus or minus two percent of it.
  Otherwise the mean and the standard deviation are taken of \<^verbatim>\<open>prices[-period:]\<close>;
  both are \<^verbatim>\<open>nan\<close> when that slice is empty, and so are the three rounded values.
\<close>

record bands =
  upper :: real
  middle :: real
  lower :: real

definition calculate_bollinger_bands :: "real list \<Rightarrow> int \<Rightarrow> bands outcome" where
  "calculate_bollinger_bands prices period =
     (if int (length prices) < period then
        let current_price = (if prices \<noteq> [] then last prices else 0)
        in Returns \<lparr>upper = current_price * 1.02, middle = current_price,
                    lower = current_price * 0.98\<rparr>
      else
        case (np_mean (py_slice_from prices (- period)), np_std (py_slice_from prices (- period))) of
          (Some sma, Some sd) \<Rightarrow>
            Returns \<lparr>upper = py_round (sma + (2 * sd)) 2,
                     middle = py_round sma 2,
                     lower = py_round (sma - (2 * sd)) 2\<rparr>
        | _ \<Rightarrow> NonFinite)"

subsection \<open>calculate\_atr\<close>



subsection \<open>calculate\_stochastic\<close>


definition py_max :: "real list \<Rightarrow> real outcome" where
  "py_max xs = (case xs of [] \<Rightarrow> Raises ValueError | x # rest \<Rightarrow> Returns (fold max rest x))"



section \<open>The random source\<close>

text \<open>
  The module draws from Python's global generator. It is modelled as an explicit state: the
  sequence of raw variates the generator hands out and the number drawn so far. For
  \<^verbatim>\<open>random.uniform(a, b)\<close> the raw variate is the value of \<^verbatim>\<open>random.random()\<close>, for
  \<^verbatim>\<open>random.gauss(mu, sigma)\<close> it is the standard normal variate \<open>z\<close> of
  \<^verbatim>\<open>mu + z * sigma\<close>, for \<^verbatim>\<open>random.choice\<close> it selects the element. No property below
  depends on the range of a variate.
\<close>

record rng =
  variates :: "nat \<Rightarrow> real"
  drawn :: nat

definition random_uniform :: "rng \<Rightarrow> real \<Rightarrow> real \<Rightarrow> real \<times> rng" where
  "random_uniform g a b = (a + (b - a) * variates g (drawn g), g\<lparr>drawn := Suc (drawn g)\<rparr>)"

definition random_gauss :: "rng \<Rightarrow> real \<Rightarrow> real \<Rightarrow> real \<times> rng" where
  "random_gauss g mu sigma = (mu + variates g (drawn g) * sigma, g\<lparr>drawn := Suc (drawn g)\<rparr>)"

definition random_choice_bool :: "rng \<Rightarrow> bool \<times> rng" where
  \<comment> \<open>\<^verbatim>\<open>random.choice([True, False])\<close>\<close>
  "random_choice_bool g = (variates g (drawn g) < 1 / 2, g\<lparr>drawn := Suc (drawn g)\<rparr>)"

section \<open>LSTMPredictor\<close>

record predictor =
  symbol :: string
  model_confidence :: real
  last_trained :: string

definition new_predictor :: "rng \<Rightarrow> string \<Rightarrow> string \<Rightarrow> predictor \<times> rng" where
  \<comment> \<open>\<^verbatim>\<open>__init__\<close>; the third argument is what \<^verbatim>\<open>datetime.now()\<close> reads\<close>
  "new_predictor g name now =
     (let (c, g1) = random_uniform g 0.65 0.85
      in (\<lparr>symbol = name, model_confidence = c, last_trained = now\<rparr>, g1))"

record forecast_point =
  fp_period :: nat
  predicted_price :: real
  lower_bound :: real
  upper_bound :: real

record forecast =
  fc_symbol :: string
  current_price :: real
  predictions :: "forecast_point list"
  direction :: string
  predicted_change_percent :: real
  fc_confidence :: real
  model_accuracy :: real
  fc_last_trained :: string
  fc_periods_ahead :: int

text \<open>
  The dictionary \<^verbatim>\<open>predict_price\<close> returns: either the one key \<^verbatim>\<open>'error'\<close> with its
  message, or the forecast.
\<close>

datatype prediction = Prediction_Error string | Forecast forecast

text \<open>The body of the loop over \<^verbatim>\<open>range(1, periods_ahead + 1)\<close>, one noise draw each.\<close>

fun predict_loop ::
  "real \<Rightarrow> real \<Rightarrow> real \<Rightarrow> real \<Rightarrow> int \<Rightarrow> rng \<Rightarrow> nat list
    \<Rightarrow> forecast_point list \<times> rng" where
  "predict_loop cur short_trend medium_trend vol periods_ahead g [] = ([], g)"
| "predict_loop cur short_trend medium_trend vol periods_ahead g (i # rest) =
     (let trend_factor = (short_trend * 0.6 + medium_trend * 0.4) / of_int periods_ahead;
          (noise, g1) = random_gauss g 0 (vol * 0.3);
          predicted_change = trend_factor + noise;
          predicted_price = cur * (1 + predicted_change * real i * 0.1);
          ci_width = vol * sqrt (real i) * cur;
          point = \<lparr>fp_period = i,
                   predicted_price = py_round predicted_price 2,
                   lower_bound = py_round (predicted_price - ci_width) 2,
                   upper_bound = py_round (predicted_price + ci_width) 2\<rparr>;
          (points, g2) = predict_loop cur short_trend medium_trend vol periods_ahead g1 rest
      in (point # points, g2))"

text \<open>
  With twenty or more prices the volatility is a quotient of numpy floats, and every number
  computed from it is a numpy float: a zero mean, and afterwards a zero current price in
  the percent change, give \<^verbatim>\<open>inf\<close> or \<^verbatim>\<open>nan\<close> and no exception. With fewer prices the
  volatility is the Python float 0.02 and the percent change divides Python floats. The two
  trends always divide Python floats. With \<open>periods_ahead < 1\<close> the loop does not run and
  \<^verbatim>\<open>predictions[-1]\<close> raises IndexError.
\<close>

definition predict_price ::
  "predictor \<Rightarrow> rng \<Rightarrow> real list \<Rightarrow> int \<Rightarrow> (prediction \<times> rng) outcome" where
  "predict_price self g historical_prices periods_ahead =
     (if length historical_prices < 10 then
        Returns (Prediction_Error ''Insufficient data for prediction'', g)
      else
        outcome_bind (index historical_prices (- 1)) (\<lambda>cur.
        outcome_bind
          (if length historical_prices \<ge> 5 then
             outcome_bind (index historical_prices (- 5)) (\<lambda>p5. py_div (cur - p5) p5)
           else Returns 0) (\<lambda>short_trend.
        outcome_bind
          (if length historical_prices \<ge> 10 then
             outcome_bind (index historical_prices (- 10)) (\<lambda>p10. py_div (cur - p10) p10)
           else Returns 0) (\<lambda>medium_trend.
        let window = py_slice_from historical_prices (- 20);
            volatility =
              (if length historical_prices \<ge> 20 then
                 (if mean window = 0 then None else Some (std window / mean window))
               else Some 0.02)
        in case volatility of
             None \<Rightarrow> if periods_ahead < 1 then Raises IndexError else NonFinite
           | Some vol \<Rightarrow>
               let (points, g1) =
                     predict_loop cur short_trend medium_trend vol periods_ahead g
                       [1..<nat (periods_ahead + 1)]
               in outcome_bind (index points (- 1)) (\<lambda>last_point.
                  let final_prediction = predicted_price last_point;
                      direction = (if final_prediction > cur then ''bullish'' else ''bearish'')
                  in outcome_bind
                       (if length historical_prices \<ge> 20 then
                          (if cur = 0 then NonFinite
                           else Returns (((final_prediction - cur) / cur) * 100))
                        else
                          outcome_bind (py_div (final_prediction - cur) cur)
                            (\<lambda>q. Returns (q * 100))) (\<lambda>price_change_pct.
                     let (accuracy, g2) = random_uniform g1 72 89
                     in Returns
                          (Forecast
                             \<lparr>fc_symbol = symbol self,
                              current_price = cur,
                              predictions = points,
                              direction = direction,
                              predicted_change_percent = py_round price_change_pct 2,
                              fc_confidence = py_round (model_confidence self * 100) 1,
                              model_accuracy = py_round accuracy 1,
                              fc_last_trained = last_trained self,
                              fc_periods_ahead = periods_ahead\<rparr>, g2)))))))"

section \<open>RiskAssessment\<close>

subsection \<open>calculate\_var\<close>

definition calculate_var :: "real list \<Rightarrow> real \<Rightarrow> real outcome" where
  "calculate_var returns confidence =
     (if length returns < 10 then Returns 0.05
      else
        let sorted_returns = sort returns;
            idx = py_int ((1 - confidence) * real (length sorted_returns))
        in outcome_bind (index sorted_returns idx) (\<lambda>r. Returns (py_round (\<bar>r\<bar> * 100) 2)))"

subsection \<open>calculate\_sharpe\_ratio\<close>

text \<open>The standard deviation is a numpy float, and the division is guarded.\<close>

definition calculate_sharpe_ratio :: "real list \<Rightarrow> real \<Rightarrow> real" where
  "calculate_sharpe_ratio returns risk_free_rate =
     (if length returns < 2 then 0
      else
        let mean_return = mean returns;
            std_return = std returns
        in if std_return = 0 then 0
           else
             let sharpe = (mean_return - risk_free_rate / 252) / std_return * sqrt 252
             in py_round sharpe 2)"

subsection \<open>calculate\_max\_drawdown\<close>

text \<open>The loop divides Python floats by the running peak, which raises on a zero peak.\<close>

fun drawdown_loop :: "real \<Rightarrow> real \<Rightarrow> real list \<Rightarrow> real outcome" where
  "drawdown_loop peak max_dd [] = Returns max_dd"
| "drawdown_loop peak max_dd (v # rest) =
     (let peak1 = (if v > peak then v else peak)
      in outcome_bind (py_div (peak1 - v) peak1) (\<lambda>dd.
           drawdown_loop peak1 (if dd > max_dd then dd else max_dd) rest))"

definition calculate_max_drawdown :: "real list \<Rightarrow> real outcome" where
  "calculate_max_drawdown equity_curve =
     (if length equity_curve < 2 then Returns 0
      else
        outcome_bind (index equity_curve 0) (\<lambda>peak.
        outcome_bind (drawdown_loop peak 0 equity_curve) (\<lambda>max_dd.
          Returns (py_round (max_dd * 100) 2))))"

subsection \<open>assess\_trade\_risk\<close>

record trade_risk =
  risk_score :: real
  risk_level :: string
  position_percentage :: real
  max_loss_1std :: real
  max_loss_2std :: real
  recommended_stop_loss :: real
  recommended_take_profit :: real
  recommendation :: string

text \<open>
  The position percentage divides the Python float \<open>position_value\<close> by the Python float
  \<open>portfolio_value\<close>; nothing guards a zero.
\<close>

definition assess_trade_risk :: "real \<Rightarrow> real \<Rightarrow> real \<Rightarrow> real \<Rightarrow> trade_risk outcome" where
  "assess_trade_risk entry_price position_size portfolio_value volatility =
     (let position_value = entry_price * position_size
      in outcome_bind (py_div position_value portfolio_value) (\<lambda>q.
         let position_pct = q * 100;
             max_loss_1 = position_value * volatility;
             max_loss_2 = position_value * volatility * 2;
             score = min 10 (max 1 (position_pct / 5 + volatility * 20));
             stop_loss = entry_price * (1 - volatility * 1.5);
             take_profit = entry_price * (1 + volatility * 2);
             level = (if score < 4 then ''low'' else if score < 7 then ''medium'' else ''high'')
         in Returns
              \<lparr>risk_score = py_round score 1,
               risk_level = level,
               position_percentage = py_round position_pct 2,
               max_loss_1std = py_round max_loss_1 2,
               max_loss_2std = py_round max_loss_2 2,
               recommended_stop_loss = py_round stop_loss 2,
               recommended_take_profit = py_round take_profit 2,
               recommendation =
                 (if score > 6 then ''Proceed with caution''
                  else ''Trade appears reasonable'')\<rparr>))"

subsection \<open>portfolio\_risk\_metrics\<close>

text \<open>
  Of a position only the key \<^verbatim>\<open>'value'\<close> is read, with default 0. The result for no
  positions has five keys; the three others are \<open>None\<close> there.
\<close>

record position =
  pos_value :: "real option"

record portfolio_risk =
  total_risk_score :: real
  diversification_score :: int
  concentration_risk :: string
  max_position_percentage :: "real option"
  var_95 :: real
  expected_volatility :: real
  beta :: "real option"
  correlation_to_market :: "real option"

definition value_or_zero :: "position \<Rightarrow> real" where
  "value_or_zero p = (case pos_value p of None \<Rightarrow> 0 | Some v \<Rightarrow> v)"

definition portfolio_risk_metrics :: "rng \<Rightarrow> position list \<Rightarrow> (portfolio_risk \<times> rng) outcome" where
  "portfolio_risk_metrics g positions =
     (if positions = [] then
        Returns (\<lparr>total_risk_score = 0, diversification_score = 0,
                  concentration_risk = ''N/A'', max_position_percentage = None,
                  var_95 = 0, expected_volatility = 0, beta = None,
                  correlation_to_market = None\<rparr>, g)
      else
        let total_value = sum_list (map value_or_zero positions)
        in outcome_bind
             (if total_value > 0 then
                py_max (map (\<lambda>p. value_or_zero p / total_value * 100) positions)
              else Returns 0) (\<lambda>max_position_pct.
           let diversification = min 10 (int (length positions) * 2);
               (portfolio_volatility, g1) = random_uniform g 0.15 0.35;
               concentration_level =
                 (if max_position_pct > 50 then ''high''
                  else if max_position_pct > 25 then ''medium'' else ''low'');
               (total_risk, g2) = random_uniform g1 4 7;
               (b, g3) = random_uniform g2 0.8 1.3;
               (corr, g4) = random_uniform g3 0.6 0.9
           in Returns
                (\<lparr>total_risk_score = py_round total_risk 1,
                  diversification_score = diversification,
                  concentration_risk = concentration_level,
                  max_position_percentage = Some (py_round max_position_pct 2),
                  var_95 = py_round (portfolio_volatility * 1.65 * 100) 2,
                  expected_volatility = py_round (portfolio_volatility * 100) 2,
                  beta = Some (py_round b 2),
                  correlation_to_market = Some (py_round corr 2)\<rparr>, g4)))"

section \<open>PortfolioOptimizer\<close>

subsection \<open>optimize\_allocation\<close>

text \<open>
  An asset is a dictionary of which the keys \<^verbatim>\<open>'symbol'\<close>, \<^verbatim>\<open>'volatility'\<close> and
  \<^verbatim>\<open>'expected_return'\<close> are read with \<^verbatim>\<open>get\<close>; a missing key is \<open>None\<close>. The two
  defaults \<^verbatim>\<open>random.uniform(0.2, 0.5)\<close> and \<^verbatim>\<open>random.uniform(-0.1, 0.3)\<close> are arguments
  of \<^verbatim>\<open>get\<close>, hence drawn for every asset, and used only for a missing key.
\<close>

record asset =
  asset_symbol :: "string option"
  asset_volatility :: "real option"
  asset_expected_return :: "real option"

record allocation_entry =
  alloc_symbol :: "string option"
  weight :: real
  alloc_expected_return :: real
  alloc_volatility :: real

record optimization =
  optimal_allocation :: "allocation_entry list"
  expected_portfolio_return :: real
  expected_portfolio_volatility :: real
  sharpe_ratio :: real
  opt_risk_tolerance :: string
  rebalancing_needed :: bool
  opt_recommendation :: string

datatype optimization_result = Optimization_Error string | Optimization optimization

definition risk_multiplier :: "string \<Rightarrow> real" where
  \<comment> \<open>\<^verbatim>\<open>risk_multipliers.get(risk_tolerance, 0.6)\<close>\<close>
  "risk_multiplier risk_tolerance =
     (if risk_tolerance = ''conservative'' then 0.3
      else if risk_tolerance = ''medium'' then 0.6
      else if risk_tolerance = ''aggressive'' then 0.9
      else 0.6)"

text \<open>The weight of one asset before normalization, from its score.\<close>

definition raw_weight :: "real \<Rightarrow> real \<Rightarrow> real" where
  "raw_weight risk_mult score =
     (let adjusted_score = (if score > 0 then score * risk_mult else score * (1 - risk_mult))
      in max 0.05 (min 0.4 ((adjusted_score + 1) / 4)))"

text \<open>
  The loop over the assets, with the list \<open>optimal_weights\<close> and the sum \<open>total_weight\<close>
  it builds. The score divides Python floats.
\<close>

fun allocation_loop ::
  "real \<Rightarrow> rng \<Rightarrow> allocation_entry list \<Rightarrow> real \<Rightarrow> asset list
    \<Rightarrow> (allocation_entry list \<times> real \<times> rng) outcome" where
  "allocation_loop risk_mult g optimal_weights total_weight [] =
     Returns (optimal_weights, total_weight, g)"
| "allocation_loop risk_mult g optimal_weights total_weight (a # rest) =
     (let (default_volatility, g1) = random_uniform g 0.2 0.5;
          volatility = (case asset_volatility a of Some v \<Rightarrow> v | None \<Rightarrow> default_volatility);
          (default_return, g2) = random_uniform g1 (- 0.1) 0.3;
          expected_return = (case asset_expected_return a of Some r \<Rightarrow> r | None \<Rightarrow> default_return)
      in outcome_bind (py_div expected_return (volatility + 0.01)) (\<lambda>score.
         let w = raw_weight risk_mult score
         in allocation_loop risk_mult g2
              (optimal_weights @
               [\<lparr>alloc_symbol = asset_symbol a,
                 weight = w,
                 alloc_expected_return = py_round (expected_return * 100) 2,
                 alloc_volatility = py_round (volatility * 100) 2\<rparr>])
              (total_weight + w) rest))"

definition normalize_weights :: "real \<Rightarrow> allocation_entry list \<Rightarrow> allocation_entry list" where
  "normalize_weights total_weight optimal_weights =
     map (\<lambda>w. w\<lparr>weight := py_round (weight w / total_weight) 4\<rparr>) optimal_weights"

definition optimize_allocation ::
  "rng \<Rightarrow> asset list \<Rightarrow> string \<Rightarrow> (optimization_result \<times> rng) outcome" where
  "optimize_allocation g assets risk_tolerance =
     (if assets = [] then Returns (Optimization_Error ''No assets provided'', g)
      else
        outcome_bind (allocation_loop (risk_multiplier risk_tolerance) g [] 0 assets)
          (\<lambda>(optimal_weights, total_weight, g1).
             if total_weight = 0 then Raises ZeroDivisionError
             else
               let normalized = normalize_weights total_weight optimal_weights;
                   portfolio_return =
                     sum_list (map (\<lambda>w. weight w * alloc_expected_return w) normalized);
                   portfolio_volatility =
                     sum_list (map (\<lambda>w. weight w * alloc_volatility w) normalized) * 0.7
               in outcome_bind (py_div portfolio_return (portfolio_volatility + 0.01)) (\<lambda>sharpe.
                  let (rebalance, g2) = random_choice_bool g1
                  in Returns
                       (Optimization
                          \<lparr>optimal_allocation = normalized,
                           expected_portfolio_return = py_round portfolio_return 2,
                           expected_portfolio_volatility = py_round portfolio_volatility 2,
                           sharpe_ratio = py_round sharpe 2,
                           opt_risk_tolerance = risk_tolerance,
                           rebalancing_needed = rebalance,
                           opt_recommendation =
                             ''Portfolio optimized for '' @ risk_tolerance @ '' risk tolerance''\<rparr>,
                        g2))))"

subsection \<open>suggest\_rebalancing\<close>

text \<open>
  An allocation is a list of dictionaries with a symbol and a weight, here pairs. The
  dictionary comprehension keeps the last weight of a symbol that occurs twice. Python
  iterates over the set of symbols in an order it does not specify: \<open>iteration\<close> stands
  for that order, applied to the symbols without duplicates.
\<close>

record suggestion =
  sg_symbol :: string
  action :: string
  current_weight :: real
  target_weight :: real
  change_percentage :: real

definition weight_dict :: "(string \<times> real) list \<Rightarrow> string \<Rightarrow> real option" where
  "weight_dict allocation = map_of (rev allocation)"

definition get_or_zero :: "(string \<Rightarrow> real option) \<Rightarrow> string \<Rightarrow> real" where
  \<comment> \<open>\<^verbatim>\<open>dict.get(symbol, 0)\<close>\<close>
  "get_or_zero dict s = (case dict s of None \<Rightarrow> 0 | Some v \<Rightarrow> v)"

fun suggestions_loop ::
  "(string \<Rightarrow> real option) \<Rightarrow> (string \<Rightarrow> real option) \<Rightarrow> string list \<Rightarrow> suggestion list" where
  "suggestions_loop current_dict target_dict [] = []"
| "suggestions_loop current_dict target_dict (s # rest) =
     (let cw = get_or_zero current_dict s;
          tw = get_or_zero target_dict s;
          diff = tw - cw
      in if \<bar>diff\<bar> > 0.01 then
           \<lparr>sg_symbol = s,
            action = (if diff > 0 then ''buy'' else ''sell''),
            current_weight = py_round (cw * 100) 2,
            target_weight = py_round (tw * 100) 2,
            change_percentage = py_round (diff * 100) 2\<rparr>
           # suggestions_loop current_dict target_dict rest
         else suggestions_loop current_dict target_dict rest)"

definition suggest_rebalancing ::
  "(string list \<Rightarrow> string list) \<Rightarrow> (string \<times> real) list \<Rightarrow> (string \<times> real) list
    \<Rightarrow> suggestion list" where
  "suggest_rebalancing iteration current_allocation target_allocation =
     (let current_dict = weight_dict current_allocation;
          target_dict = weight_dict target_allocation;
          all_symbols =
            iteration (remdups (map fst current_allocation @ map fst target_allocation))
      in suggestions_loop current_dict target_dict all_symbols)"

section \<open>Rounding\<close>







section \<open>Means\<close>



section \<open>The relative strength index\<close>







section \<open>The simple moving average\<close>

lemma py_slice_to_Suc: "py_slice_to xs (int i + 1) = take (Suc i) xs"
  by (simp add: py_slice_to_def slice_bound_def min_def nat_add_distrib)

lemma py_slice_Suc:
  "0 \<le> a \<Longrightarrow> py_slice xs a (int i + 1) = take (Suc i - nat a) (drop (nat a) xs)"
  by (simp add: py_slice_def slice_bound_def min_def nat_add_distrib Let_def)

lemma py_slice_empty: "j \<le> i \<Longrightarrow> 0 \<le> j \<Longrightarrow> py_slice xs i j = []"
  by (auto simp add: py_slice_def slice_bound_def min_def Let_def)

lemma length_calculate_sma: "length (calculate_sma prices period) = length prices"
  by (simp add: calculate_sma_def)

text \<open>
  C2, amended: for every price list and every period, \<open>calculate_sma\<close> returns a list of
  the same length as the input. When the period exceeds the length, every element is the
  mean of the whole list. When \<open>1 \<le> period \<le> length\<close>, the element at index \<open>i\<close> is
  the mean of all points from the start up to \<open>i\<close> when fewer than \<open>period\<close> points
  precede \<open>i\<close>, and otherwise the mean of exactly the trailing \<open>period\<close> points ending
  at \<open>i\<close>. When \<open>period \<le> 0\<close>, every element is \<^verbatim>\<open>nan\<close>.
\<close>

theorem calculate_sma_elements:
  assumes "i < length prices"
  shows "length (calculate_sma prices period) = length prices \<and>
    calculate_sma prices period ! i =
     (if int (length prices) < period then np_mean prices
      else if 1 \<le> period then sma_spec prices period i
      else None)"
proof -
  consider (short) "int (length prices) < period" | (nonpos) "period \<le> 0"
    | (warm) "1 \<le> period" "period \<le> int (length prices)" "int i < period - 1"
    | (full) "1 \<le> period" "period \<le> int (length prices)" "period - 1 \<le> int i"
    by linarith
  then show ?thesis
  proof cases
    case short
    with assms show ?thesis
      by (simp add: calculate_sma_def)
  next
    case nonpos
    then have "py_slice prices (int i - period + 1) (int i + 1) = []"
      by (intro py_slice_empty) simp_all
    with nonpos assms show ?thesis
      by (simp add: calculate_sma_def np_mean_def)
  next
    case warm
    with assms show ?thesis
      by (simp add: calculate_sma_def sma_spec_def py_slice_to_Suc)
  next
    case full
    have a: "nat (int i - period + 1) = Suc i - nat period"
      using full by linarith
    have "py_slice prices (int i - period + 1) (int i + 1) =
        take (Suc i - (Suc i - nat period)) (drop (Suc i - nat period) prices)"
      using full py_slice_Suc [of "int i - period + 1" prices i] by (simp only: a)
    moreover have "Suc i - (Suc i - nat period) = nat period"
      using full by linarith
    moreover have "int i < period \<Longrightarrow> nat period = Suc i"
      using full by linarith
    ultimately show ?thesis
      using full assms by (auto simp add: calculate_sma_def sma_spec_def)
  qed
qed

theorem calculate_sma_elements_witness:
  "(2::nat) < length [1, 2, 3 :: real] \<and>
   length (calculate_sma [1, 2, 3] 2) = 3 \<and> calculate_sma [1, 2, 3] 2 ! 2 = Some (5 / 2)"
  using calculate_sma_elements [of 2 "[1, 2, 3]" 2]
  by (simp add: sma_spec_def np_mean_def mean_def)

text \<open>
  C2, as stated, fails when the period exceeds the length of the list: the early return
  \<^verbatim>\<open>[np.mean(prices)] * len(prices)\<close> fills the result with the mean of the whole list.
  For the prices 1 and 3 and period 3 the element at index 0 is 2, while the mean of the
  points up to index 0 is 1.
\<close>

theorem calculate_sma_short_counterexample:
  "calculate_sma [1, 3] 3 ! 0 = Some 2 \<and> sma_spec [1, 3] 3 0 = Some 1 \<and>
   calculate_sma [1, 3] 3 ! 0 \<noteq> sma_spec [1, 3] 3 0"
  by (simp add: calculate_sma_def sma_spec_def np_mean_def mean_def)


section \<open>Bollinger bands\<close>



text \<open>
  A period that is not positive can leave the trailing slice empty, and then the three
  values are \<^verbatim>\<open>nan\<close>.
\<close>

lemma bollinger_empty_window: "calculate_bollinger_bands [] 0 = NonFinite"
  by (simp add: calculate_bollinger_bands_def py_slice_from_def np_mean_def)



section \<open>Risk functions on degenerate input\<close>

lemma risk_functions_empty:
  "calculate_var [] confidence = Returns 0.05"
  "calculate_sharpe_ratio [] risk_free_rate = 0"
  "calculate_max_drawdown [] = Returns 0"
  "\<exists>r. portfolio_risk_metrics g [] = Returns (r, g)"
  by (simp_all add: calculate_var_def calculate_sharpe_ratio_def calculate_max_drawdown_def
      portfolio_risk_metrics_def)

lemma max_drawdown_zero_peak: "calculate_max_drawdown [0, 0] = Raises ZeroDivisionError"
  by (simp add: calculate_max_drawdown_def index_def py_get_def outcome_bind_def py_div_def)

lemma max_drawdown_scenario:
  "calculate_max_drawdown [10000, 11000, 9000, 9500] = Returns 18.18"
  by (simp add: calculate_max_drawdown_def index_def py_get_def outcome_bind_def py_div_def
      py_round_def round_half_even_def Let_def)

text \<open>
  C3: the claim asks that \<open>assess_trade_risk\<close> return a record even when the portfolio
  value is 0. The code divides by the portfolio value unguarded: for every entry price,
  position size and volatility the call raises ZeroDivisionError. On empty input the four
  other functions do return (\<open>risk_functions_empty\<close>).
\<close>

theorem assess_trade_risk_zero_portfolio:
  "assess_trade_risk entry_price position_size 0 volatility = Raises ZeroDivisionError"
  by (simp add: assess_trade_risk_def py_div_def outcome_bind_def)

section \<open>Rebalancing\<close>

lemma suggestions_loop_same: "suggestions_loop dict dict symbols = []"
  by (induction symbols) simp_all

text \<open>
  C7: for every allocation list \<open>A\<close>, \<open>suggest_rebalancing(A, A)\<close> is the empty list,
  in whatever order the symbols are visited.
\<close>

theorem suggest_rebalancing_same: "suggest_rebalancing iteration A A = []"
  by (simp add: suggest_rebalancing_def suggestions_loop_same)

section \<open>The price forecast\<close>






lemma sum_list_pos_real:
  fixes xs :: "real list"
  shows "xs \<noteq> [] \<Longrightarrow> (\<And>x. x \<in> set xs \<Longrightarrow> 0 < x) \<Longrightarrow> 0 < sum_list xs"
proof (induction xs)
  case Nil
  then show ?case by simp
next
  case (Cons a xs)
  show ?case
  proof (cases "xs = []")
    case True
    with Cons.prems show ?thesis by simp
  next
    case False
    then have "0 < sum_list xs"
      using Cons by simp
    moreover have "0 < a"
      using Cons.prems by simp
    ultimately show ?thesis by simp
  qed
qed





text \<open>Without a forecast step the loop appends nothing and the last prediction is missing.\<close>

lemma predict_price_no_periods:
  "predict_price self g [100, 102, 101, 105, 107, 106, 110, 108, 112, 115] 0 =
     Raises IndexError"
  by (simp add: predict_price_def index_def py_get_def outcome_bind_def py_div_def)






section \<open>The allocation optimizer\<close>

lemma round_half_even_error: "\<bar>of_int (round_half_even y) - y\<bar> \<le> 1 / 2"
proof -
  have "of_int \<lfloor>y\<rfloor> \<le> y" "y < of_int \<lfloor>y\<rfloor> + 1"
    by linarith+
  then show ?thesis
    by (auto simp add: round_half_even_def Let_def)
qed

lemma py_round_error: "\<bar>py_round x n - x\<bar> \<le> 1 / (2 * 10 ^ n)"
proof -
  have "py_round x n - x = (of_int (round_half_even (x * 10 ^ n)) - x * 10 ^ n) / 10 ^ n"
    by (simp add: py_round_def diff_divide_distrib)
  then have "\<bar>py_round x n - x\<bar> = \<bar>of_int (round_half_even (x * 10 ^ n)) - x * 10 ^ n\<bar> / 10 ^ n"
    by simp
  also have "\<dots> \<le> (1 / 2) / 10 ^ n"
    by (intro divide_right_mono round_half_even_error) simp
  finally show ?thesis
    by simp
qed

lemma sum_list_perturbed:
  fixes xs :: "real list"
  assumes "\<And>x. x \<in> set xs \<Longrightarrow> \<bar>f x - x\<bar> \<le> e"
  shows "\<bar>sum_list (map f xs) - sum_list xs\<bar> \<le> real (length xs) * e"
  using assms
proof (induction xs)
  case Nil
  then show ?case by simp
next
  case (Cons a xs)
  have "\<bar>f a - a\<bar> \<le> e" "\<bar>sum_list (map f xs) - sum_list xs\<bar> \<le> real (length xs) * e"
    using Cons by simp_all
  then show ?case
    by (simp add: algebra_simps)
qed

lemma raw_weight_range: "0.05 \<le> raw_weight m s \<and> raw_weight m s \<le> 0.4"
  by (simp add: raw_weight_def Let_def)

lemma allocation_loop_returns:
  assumes "\<forall>a\<in>set assets. \<exists>v. asset_volatility a = Some v \<and> v + 0.01 \<noteq> 0"
  shows "\<exists>new g'. allocation_loop m g ows tw assets =
             Returns (ows @ new, tw + sum_list (map weight new), g') \<and>
           length new = length assets \<and>
           (\<forall>e\<in>set new. 0.05 \<le> weight e \<and> weight e \<le> 0.4 \<and>
              (\<exists>k. alloc_volatility e = of_int k / 100))"
  using assms
proof (induction assets arbitrary: g ows tw)
  case Nil
  then show ?case by simp
next
  case (Cons a rest)
  from Cons.prems obtain v where v: "asset_volatility a = Some v" "v + 0.01 \<noteq> 0"
    by auto
  obtain dv g1 where d1: "random_uniform g 0.2 0.5 = (dv, g1)"
    by (cases "random_uniform g 0.2 0.5")
  obtain dr g2 where d2: "random_uniform g1 (- 0.1) 0.3 = (dr, g2)"
    by (cases "random_uniform g1 (- 0.1) 0.3")
  define r where "r = (case asset_expected_return a of Some r \<Rightarrow> r | None \<Rightarrow> dr)"
  define e where "e = \<lparr>alloc_symbol = asset_symbol a,
      weight = raw_weight m (r / (v + 0.01)),
      alloc_expected_return = py_round (r * 100) 2,
      alloc_volatility = py_round (v * 100) 2\<rparr>"
  have step: "allocation_loop m g ows tw (a # rest) =
      allocation_loop m g2 (ows @ [e]) (tw + weight e) rest"
    using v d1 d2 by (simp add: py_div_def outcome_bind_def Let_def e_def r_def)
  from Cons.IH [of g2 "ows @ [e]" "tw + weight e"] Cons.prems
  obtain new g' where
    new: "allocation_loop m g2 (ows @ [e]) (tw + weight e) rest =
       Returns ((ows @ [e]) @ new, (tw + weight e) + sum_list (map weight new), g')"
      "length new = length rest"
      "\<forall>e\<in>set new. 0.05 \<le> weight e \<and> weight e \<le> 0.4 \<and>
              (\<exists>k. alloc_volatility e = of_int k / 100)"
    by auto
  have ee: "0.05 \<le> weight e \<and> weight e \<le> 0.4 \<and> (\<exists>k. alloc_volatility e = of_int k / 100)"
    using raw_weight_range [of m "r / (v + 0.01)"] by (simp add: e_def py_round_def)
  have "allocation_loop m g ows tw (a # rest) =
      Returns (ows @ (e # new), tw + sum_list (map weight (e # new)), g')"
    by (simp only: step new(1)) (simp add: add.assoc)
  moreover have "length (e # new) = length (a # rest)"
    using new(2) by simp
  moreover have "\<forall>e\<in>set (e # new). 0.05 \<le> weight e \<and> weight e \<le> 0.4 \<and>
              (\<exists>k. alloc_volatility e = of_int k / 100)"
    using new(3) ee by simp
  ultimately show ?case
    by blast
qed


lemma weighted_sum_integral:
  assumes "\<forall>e\<in>set es. (\<exists>a. weight e = of_int a / 10 ^ 4) \<and>
             (\<exists>b. alloc_volatility e = of_int b / 100)"
  shows "\<exists>K. sum_list (map (\<lambda>w. weight w * alloc_volatility w) es) = of_int K / 10 ^ 6"
  using assms
proof (induction es)
  case Nil
  show ?case
    by (rule exI [of _ 0]) simp
next
  case (Cons e es)
  then obtain K a b where f:
    "sum_list (map (\<lambda>w. weight w * alloc_volatility w) es) = of_int K / 10 ^ 6"
    "weight e = of_int a / 10 ^ 4" "alloc_volatility e = of_int b / 100"
    by auto
  have "sum_list (map (\<lambda>w. weight w * alloc_volatility w) (e # es)) =
      of_int a / 10 ^ 4 * (of_int b / 100) + of_int K / 10 ^ 6"
    by (simp only: list.map sum_list.Cons f)
  also have "\<dots> = of_int (a * b + K) / 10 ^ 6"
    by (simp add: add_divide_distrib)
  finally show ?case
    by blast
qed

lemma diversified_volatility_nonzero:
  "of_int K / 10 ^ 6 * 0.7 + 0.01 \<noteq> (0::real)"
proof
  assume "of_int K / 10 ^ 6 * 0.7 + 0.01 = (0::real)"
  then have "(of_int (7 * K + 100000) :: real) = of_int 0"
    by (simp add: field_simps)
  then have "7 * K + 100000 = 0"
    by (simp only: of_int_eq_iff)
  then show False
    by presburger
qed

lemma normalize_weights_fields:
  "map weight (normalize_weights t es) = map (\<lambda>w. py_round (weight w / t) 4) es"
  "map alloc_volatility (normalize_weights t es) = map alloc_volatility es"
  "length (normalize_weights t es) = length es"
  by (simp_all add: normalize_weights_def)

lemma optimize_allocation_returns:
  assumes ne: "assets \<noteq> []"
    and vol: "\<forall>a\<in>set assets. \<exists>v. asset_volatility a = Some v \<and> v + 0.01 \<noteq> 0"
  shows "\<exists>raw g1 opt g2.
      allocation_loop (risk_multiplier rt) g [] 0 assets =
        Returns (raw, sum_list (map weight raw), g1) \<and>
      length raw = length assets \<and>
      (\<forall>e\<in>set raw. 0.05 \<le> weight e \<and> weight e \<le> 0.4) \<and>
      optimize_allocation g assets rt = Returns (Optimization opt, g2) \<and>
      optimal_allocation opt = normalize_weights (sum_list (map weight raw)) raw"
proof -
  from allocation_loop_returns [OF vol, of "risk_multiplier rt" g "[]" 0]
  obtain raw g1 where
    loop: "allocation_loop (risk_multiplier rt) g [] 0 assets =
        Returns (raw, sum_list (map weight raw), g1)"
    and len: "length raw = length assets"
    and each: "\<forall>e\<in>set raw. 0.05 \<le> weight e \<and> weight e \<le> 0.4 \<and>
              (\<exists>k. alloc_volatility e = of_int k / 100)"
    by auto
  define t where "t = sum_list (map weight raw)"
  define normalized where "normalized = normalize_weights t raw"
  have "raw \<noteq> []"
    using len ne by auto
  moreover have "\<And>x. x \<in> set (map weight raw) \<Longrightarrow> 0 < x"
    using each by fastforce
  ultimately have tpos: "0 < t"
    unfolding t_def by (intro sum_list_pos_real) simp_all
  have "\<forall>e\<in>set normalized. (\<exists>a. weight e = of_int a / 10 ^ 4) \<and>
             (\<exists>b. alloc_volatility e = of_int b / 100)"
    using each by (auto simp add: normalized_def normalize_weights_def py_round_def)
  from weighted_sum_integral [OF this] obtain K where
    "sum_list (map (\<lambda>w. weight w * alloc_volatility w) normalized) = of_int K / 10 ^ 6"
    by blast
  then have pv: "sum_list (map (\<lambda>w. weight w * alloc_volatility w) normalized) * 0.7 + 0.01 \<noteq> 0"
    using diversified_volatility_nonzero [of K] by simp
  obtain rb g2 where ch: "random_choice_bool g1 = (rb, g2)"
    by (cases "random_choice_bool g1")
  have "\<exists>opt. optimize_allocation g assets rt = Returns (Optimization opt, g2) \<and>
      optimal_allocation opt = normalized"
    unfolding optimize_allocation_def loop
    using ne tpos pv
    by (simp add: outcome_bind_def py_div_def Let_def t_def [symmetric]
        normalized_def [symmetric] ch)
  with loop len each show ?thesis
    unfolding normalized_def t_def by blast
qed


lemma sum_list_normalized:
  fixes t :: real
  assumes "t \<noteq> 0" "t = sum_list (map weight es)"
  shows "sum_list (map (\<lambda>w. weight w / t) es) = 1"
proof -
  have "sum_list (map (\<lambda>w. weight w / t) es) = sum_list (map (\<lambda>w. weight w * (1 / t)) es)"
    by simp
  also have "\<dots> = sum_list (map weight es) * (1 / t)"
    by (rule sum_list_mult_const)
  finally show ?thesis
    using assms by simp
qed


text \<open>
  C4, as stated, fails: the normalized weights are rounded to 4 decimals, so their sum need
  not lie within \<open>10\<^sup>-\<^sup>6\<close> of 1. Three assets with equal scores get the raw weight 0.25
  each, the normalized weight 0.3333 each, and the sum 0.9999.
\<close>

theorem optimize_allocation_sum_counterexample:
  "\<exists>opt g'. optimize_allocation \<lparr>variates = (\<lambda>n. 0), drawn = 0\<rparr>
     [\<lparr>asset_symbol = Some ''A'', asset_volatility = Some 0.99, asset_expected_return = Some 0\<rparr>,
      \<lparr>asset_symbol = Some ''B'', asset_volatility = Some 0.99, asset_expected_return = Some 0\<rparr>,
      \<lparr>asset_symbol = Some ''C'', asset_volatility = Some 0.99, asset_expected_return = Some 0\<rparr>]
     ''medium'' = Returns (Optimization opt, g') \<and>
     map weight (optimal_allocation opt) = [0.3333, 0.3333, 0.3333] \<and>
     sum_list (map weight (optimal_allocation opt)) = 0.9999 \<and>
     \<not> \<bar>sum_list (map weight (optimal_allocation opt)) - 1\<bar> \<le> 0.000001"
  by (simp add: optimize_allocation_def random_uniform_def py_div_def outcome_bind_def
      raw_weight_def normalize_weights_def py_round_def round_half_even_def
      random_choice_bool_def risk_multiplier_def Let_def)

text \<open>
  C4, amended: for every non-empty asset list in which each asset supplies its own
  volatility (other than -0.01, where the score divides by zero) and expected return,
  \<open>optimize_allocation\<close> produces one raw weight per asset, each in \<open>[0.05, 0.40]\<close>
  before normalization, and returns normalized weights, rounded to 4 decimals, whose sum
  differs from 1 by at most 0.00005 times the number of assets.
\<close>

theorem optimize_allocation_weights:
  assumes ne: "assets \<noteq> []"
    and own: "\<forall>a\<in>set assets. \<exists>v r. asset_volatility a = Some v \<and>
                asset_expected_return a = Some r \<and> v + 0.01 \<noteq> 0"
  shows "\<exists>raw total g1 opt g2.
      allocation_loop (risk_multiplier rt) g [] 0 assets = Returns (raw, total, g1) \<and>
      length raw = length assets \<and>
      (\<forall>e\<in>set raw. 0.05 \<le> weight e \<and> weight e \<le> 0.4) \<and>
      optimize_allocation g assets rt = Returns (Optimization opt, g2) \<and>
      length (optimal_allocation opt) = length assets \<and>
      \<bar>sum_list (map weight (optimal_allocation opt)) - 1\<bar> \<le> real (length assets) * 0.00005"
proof -
  from own have vol: "\<forall>a\<in>set assets. \<exists>v. asset_volatility a = Some v \<and> v + 0.01 \<noteq> 0"
    by blast
  from optimize_allocation_returns [OF ne vol, of rt g]
  obtain raw g1 opt g2 where
    loop: "allocation_loop (risk_multiplier rt) g [] 0 assets =
        Returns (raw, sum_list (map weight raw), g1)"
    and len: "length raw = length assets"
    and each: "\<forall>e\<in>set raw. 0.05 \<le> weight e \<and> weight e \<le> 0.4"
    and ret: "optimize_allocation g assets rt = Returns (Optimization opt, g2)"
    and alloc: "optimal_allocation opt = normalize_weights (sum_list (map weight raw)) raw"
    by blast
  define t where "t = sum_list (map weight raw)"
  have "raw \<noteq> []"
    using len ne by auto
  moreover have "\<And>x. x \<in> set (map weight raw) \<Longrightarrow> 0 < x"
    using each by fastforce
  ultimately have "0 < t"
    unfolding t_def by (intro sum_list_pos_real) simp_all
  then have one: "sum_list (map (\<lambda>w. weight w / t) raw) = 1"
    by (intro sum_list_normalized) (simp_all add: t_def)
  have "map weight (optimal_allocation opt) =
      map (\<lambda>x. py_round x 4) (map (\<lambda>w. weight w / t) raw)"
    by (simp add: alloc normalize_weights_fields t_def)
  moreover have "\<bar>sum_list (map (\<lambda>x. py_round x 4) (map (\<lambda>w. weight w / t) raw)) -
      sum_list (map (\<lambda>w. weight w / t) raw)\<bar>
      \<le> real (length (map (\<lambda>w. weight w / t) raw)) * (1 / (2 * 10 ^ 4))"
    by (rule sum_list_perturbed) (rule py_round_error)
  ultimately have "\<bar>sum_list (map weight (optimal_allocation opt)) - 1\<bar>
      \<le> real (length assets) * 0.00005"
    by (simp add: one len)
  moreover have "length (optimal_allocation opt) = length assets"
    by (simp add: alloc normalize_weights_fields len)
  ultimately show ?thesis
    using loop len each ret by blast
qed

theorem optimize_allocation_weights_witness:
  "[\<lparr>asset_symbol = Some ''A'', asset_volatility = Some 0.99, asset_expected_return = Some 0\<rparr>,
      \<lparr>asset_symbol = Some ''B'', asset_volatility = Some 0.99, asset_expected_return = Some 0\<rparr>,
      \<lparr>asset_symbol = Some ''C'', asset_volatility = Some 0.99, asset_expected_return = Some 0\<rparr>] \<noteq> [] \<and>
   list_all (\<lambda>a. \<exists>v r. asset_volatility a = Some v \<and>
      asset_expected_return a = Some r \<and> v + 0.01 \<noteq> 0)
     [\<lparr>asset_symbol = Some ''A'', asset_volatility = Some 0.99, asset_expected_return = Some 0\<rparr>,
      \<lparr>asset_symbol = Some ''B'', asset_volatility = Some 0.99, asset_expected_return = Some 0\<rparr>,
      \<lparr>asset_symbol = Some ''C'', asset_volatility = Some 0.99, asset_expected_return = Some 0\<rparr>] \<and>
   (\<exists>raw total g1 opt g2.
      allocation_loop (risk_multiplier ''medium'') \<lparr>variates = (\<lambda>n. 0), drawn = 0\<rparr> [] 0 [\<lparr>asset_symbol = Some ''A'', asset_volatility = Some 0.99, asset_expected_return = Some 0\<rparr>,
      \<lparr>asset_symbol = Some ''B'', asset_volatility = Some 0.99, asset_expected_return = Some 0\<rparr>,
      \<lparr>asset_symbol = Some ''C'', asset_volatility = Some 0.99, asset_expected_return = Some 0\<rparr>] = Returns (raw, total, g1) \<and>
      length raw = length [\<lparr>asset_symbol = Some ''A'', asset_volatility = Some 0.99, asset_expected_return = Some 0\<rparr>,
      \<lparr>asset_symbol = Some ''B'', asset_volatility = Some 0.99, asset_expected_return = Some 0\<rparr>,
      \<lparr>asset_symbol = Some ''C'', asset_volatility = Some 0.99, asset_expected_return = Some 0\<rparr>] \<and>
      (\<forall>e\<in>set raw. 0.05 \<le> weight e \<and> weight e \<le> 0.4) \<and>
      optimize_allocation \<lparr>variates = (\<lambda>n. 0), drawn = 0\<rparr> [\<lparr>asset_symbol = Some ''A'', asset_volatility = Some 0.99, asset_expected_return = Some 0\<rparr>,
      \<lparr>asset_symbol = Some ''B'', asset_volatility = Some 0.99, asset_expected_return = Some 0\<rparr>,
      \<lparr>asset_symbol = Some ''C'', asset_volatility = Some 0.99, asset_expected_return = Some 0\<rparr>] ''medium'' = Returns (Optimization opt, g2) \<and>
      length (optimal_allocation opt) = length [\<lparr>asset_symbol = Some ''A'', asset_volatility = Some 0.99, asset_expected_return = Some 0\<rparr>,
      \<lparr>asset_symbol = Some ''B'', asset_volatility = Some 0.99, asset_expected_return = Some 0\<rparr>,
      \<lparr>asset_symbol = Some ''C'', asset_volatility = Some 0.99, asset_expected_return = Some 0\<rparr>] \<and>
      \<bar>sum_list (map weight (optimal_allocation opt)) - 1\<bar> \<le> real (length [\<lparr>asset_symbol = Some ''A'', asset_volatility = Some 0.99, asset_expected_return = Some 0\<rparr>,
      \<lparr>asset_symbol = Some ''B'', asset_volatility = Some 0.99, asset_expected_return = Some 0\<rparr>,
      \<lparr>asset_symbol = Some ''C'', asset_volatility = Some 0.99, asset_expected_return = Some 0\<rparr>]) * 0.00005)"
proof -
  have h1: "[\<lparr>asset_symbol = Some ''A'', asset_volatility = Some 0.99, asset_expected_return = Some 0\<rparr>,
      \<lparr>asset_symbol = Some ''B'', asset_volatility = Some 0.99, asset_expected_return = Some 0\<rparr>,
      \<lparr>asset_symbol = Some ''C'', asset_volatility = Some 0.99, asset_expected_return = Some 0\<rparr>] \<noteq> []"
    by simp
  have h2: "\<forall>a\<in>set [\<lparr>asset_symbol = Some ''A'', asset_volatility = Some 0.99, asset_expected_return = Some 0\<rparr>,
      \<lparr>asset_symbol = Some ''B'', asset_volatility = Some 0.99, asset_expected_return = Some 0\<rparr>,
      \<lparr>asset_symbol = Some ''C'', asset_volatility = Some 0.99, asset_expected_return = Some 0\<rparr>]. \<exists>v r. asset_volatility a = Some v \<and>
      asset_expected_return a = Some r \<and> v + 0.01 \<noteq> 0"
  proof
    fix a
    assume "a \<in> set [\<lparr>asset_symbol = Some ''A'', asset_volatility = Some 0.99, asset_expected_return = Some 0\<rparr>,
      \<lparr>asset_symbol = Some ''B'', asset_volatility = Some 0.99, asset_expected_return = Some 0\<rparr>,
      \<lparr>asset_symbol = Some ''C'', asset_volatility = Some 0.99, asset_expected_return = Some 0\<rparr>]"
    then have "asset_volatility a = Some 0.99 \<and> asset_expected_return a = Some 0 \<and>
        (0.99::real) + 0.01 \<noteq> 0"
      by auto
    then show "\<exists>v r. asset_volatility a = Some v \<and>
        asset_expected_return a = Some r \<and> v + 0.01 \<noteq> 0"
      by blast
  qed
  from optimize_allocation_weights [OF h1 h2, of "''medium''" "\<lparr>variates = (\<lambda>n. 0), drawn = 0\<rparr>"] h1 h2
  show ?thesis
    unfolding list_all_iff by (intro conjI)
qed




section \<open>Determinism of the indicators\<close>



end
